theory Spec2Isabelle
  imports Main
begin

section \<open>JavaScript values, errors and HTTP exchanges\<close>

text \<open>
  The payloads that travel through the handlers are JSON documents as JavaScript sees
  them after parsing. The handlers never look into a number, so numbers are kept as
  integers. An object is its list of properties in insertion order; a JavaScript object
  has each property name once, so a lookup never meets a second entry for a name.
\<close>

datatype jsval =
    JUndefined
  | JNull
  | JBool bool
  | JNum int
  | JStr string
  | JArr "jsval list"
  | JObj "(string \<times> jsval) list"

text \<open>
  What a \<^verbatim>\<open>try\<close> block can catch here: the error of a rejected axios promise (no
  answer from the peer, an answer whose status axios refuses, which carries the peer's
  status and body, or a body axios refuses to parse when it is configured to) and the
  \<^verbatim>\<open>TypeError\<close> of reading a property of \<^verbatim>\<open>null\<close> or \<^verbatim>\<open>undefined\<close> or of calling what
  is not a function. The handlers see the settled promise only.
\<close>

datatype js_error =
    NetworkError string
  | HttpError nat jsval
  | ParseError string
  | TypeError string

text \<open>
  \<^verbatim>\<open>v.key\<close> for an own property name such as \<^verbatim>\<open>token\<close> or \<^verbatim>\<open>contacts\<close>, which no
  prototype defines: it throws on \<^verbatim>\<open>null\<close> and \<^verbatim>\<open>undefined\<close>, reads the property of an
  object, and is \<^verbatim>\<open>undefined\<close> on every other value.
\<close>

fun get_prop :: "jsval \<Rightarrow> string \<Rightarrow> js_error + jsval" where
  "get_prop JUndefined k = Inl (TypeError (''Cannot read properties of undefined (reading '' @ k @ '')''))"
| "get_prop JNull k = Inl (TypeError (''Cannot read properties of null (reading '' @ k @ '')''))"
| "get_prop (JObj kvs) k = Inr (case map_of kvs k of Some v \<Rightarrow> v | None \<Rightarrow> JUndefined)"
| "get_prop v k = Inr JUndefined"

datatype http_verb = VGet | VPost

text \<open>An outbound axios call: \<^verbatim>\<open>axios.get(url, {headers})\<close> or \<^verbatim>\<open>axios.post(url, data, {headers})\<close>.\<close>

record http_request =
  verb :: http_verb
  url :: string
  payload :: "jsval option"
  headers :: "(string \<times> string) list"

record axios_response =
  data :: jsval

datatype axios_result = Resolved axios_response | Rejected js_error

text \<open>
  The peer of an outbound call (the vendor for the API routes, the API routes for the
  browser components) is a parameter: a function from the call and the peer's state to
  the settled promise and the peer's next state.
\<close>

type_synonym 's remote = "http_request \<Rightarrow> 's \<Rightarrow> axios_result \<times> 's"

text \<open>
  What a peer puts on the wire, and what axios makes of it with the defaults the code
  leaves in place (every call passes \<^verbatim>\<open>headers\<close> only: no \<^verbatim>\<open>validateStatus\<close>, no
  \<^verbatim>\<open>responseType\<close>, no \<^verbatim>\<open>transitional\<close>). No answer rejects the promise. An answer with a
  status outside 200..299 rejects it, the error carrying the status and the body. An answer
  with a status in 200..299 resolves it: \<^verbatim>\<open>response.data\<close> is the parsed body when the
  body parses as JSON, and the body's raw text, as a string, when it does not.
\<close>

datatype wire_body = Parsable jsval | Unparsable string

datatype vendor_answer = NoAnswer string | Answer nat wire_body

fun axios_data :: "wire_body \<Rightarrow> jsval" where
  "axios_data (Parsable v) = v"
| "axios_data (Unparsable t) = JStr t"

fun axios_settle :: "vendor_answer \<Rightarrow> axios_result" where
  "axios_settle (NoAnswer m) = Rejected (NetworkError m)"
| "axios_settle (Answer st b) =
     (if 200 \<le> st \<and> st < 300 then Resolved \<lparr>data = axios_data b\<rparr>
      else Rejected (HttpError st (axios_data b)))"

definition via_axios :: "(http_request \<Rightarrow> 's \<Rightarrow> vendor_answer \<times> 's) \<Rightarrow> 's remote" where
  "via_axios server rq s = (case server rq s of (a, s') \<Rightarrow> (axios_settle a, s'))"

datatype log_entry =
    ConsoleLog string jsval
  | ConsoleError string "js_error option"

datatype body = JsonBody jsval | TextBody string

text \<open>
  The response as the handler leaves it: the status code (200 unless \<^verbatim>\<open>res.status\<close> is
  called), the headers set with \<^verbatim>\<open>res.setHeader\<close>, and the argument of \<^verbatim>\<open>res.json\<close> or
  \<^verbatim>\<open>res.end\<close>.
\<close>

record response =
  statusCode :: nat
  resHeaders :: "(string \<times> string list) list"
  resBody :: body

record handler_result =
  res :: response
  calls :: "http_request list"
  logs :: "log_entry list"

text \<open>\<^verbatim>\<open>process.env.NAME\<close> is a string or \<^verbatim>\<open>undefined\<close>; a template literal prints the latter.\<close>

fun env_str :: "string option \<Rightarrow> string" where
  "env_str None = ''undefined''"
| "env_str (Some s) = s"

record config =
  YOUR_API_KEY :: "string option"
  userId :: "string option"

text \<open>
  \<^verbatim>\<open>req.query.connectionId\<close>: absent, one string, or the array of a repeated parameter.
\<close>

datatype query_value = QUndefined | QString string | QArray "string list"

fun truthy :: "query_value \<Rightarrow> bool" where
  "truthy QUndefined = False"
| "truthy (QString s) = (s \<noteq> [])"
| "truthy (QArray xs) = True"

fun join_comma :: "string list \<Rightarrow> string" where
  "join_comma [] = []"
| "join_comma [x] = x"
| "join_comma (x # xs) = x @ '','' @ join_comma xs"

fun template_str :: "query_value \<Rightarrow> string" where
  "template_str QUndefined = ''undefined''"
| "template_str (QString s) = s"
| "template_str (QArray xs) = join_comma xs"

record request =
  req_method :: string
  query_connectionId :: query_value
  req_body :: jsval

section \<open>The contacts route (pages/api/contacts.js)\<close>

definition json_response :: "nat \<Rightarrow> jsval \<Rightarrow> response" where
  "json_response code v = \<lparr>statusCode = code, resHeaders = [], resBody = JsonBody v\<rparr>"

definition contacts_url :: "query_value \<Rightarrow> string" where
  "contacts_url connectionId =
     ''https://embedded.runalloy.com/2023-12/one/crm/contacts?connectionId='' @ template_str connectionId"

definition contacts_get_call :: "config \<Rightarrow> query_value \<Rightarrow> http_request" where
  "contacts_get_call cfg connectionId =
     \<lparr>verb = VGet, url = contacts_url connectionId, payload = None,
      headers = [(''Authorization'', ''bearer '' @ env_str (YOUR_API_KEY cfg)),
                 (''accept'', ''application/json'')]\<rparr>"

definition contacts_post_call :: "config \<Rightarrow> query_value \<Rightarrow> jsval \<Rightarrow> http_request" where
  "contacts_post_call cfg connectionId b =
     \<lparr>verb = VPost, url = contacts_url connectionId, payload = Some b,
      headers = [(''Authorization'', ''bearer '' @ env_str (YOUR_API_KEY cfg)),
                 (''accept'', ''application/json''),
                 (''content-type'', ''application/json'')]\<rparr>"

definition contacts_handler :: "config \<Rightarrow> 's remote \<Rightarrow> request \<Rightarrow> 's \<Rightarrow> handler_result \<times> 's" where
  "contacts_handler cfg vendor req s =
     (let method = req_method req; connectionId = query_connectionId req in
      if \<not> truthy connectionId then
        (\<lparr>res = json_response 400 (JObj [(''error'', JStr ''ConnectionId is required'')]),
          calls = [], logs = []\<rparr>, s)
      else if method = ''GET'' then
        (let rq = contacts_get_call cfg connectionId in
         case vendor rq s of
           (Resolved response, s') \<Rightarrow>
             (\<lparr>res = json_response 200 (data response), calls = [rq], logs = []\<rparr>, s')
         | (Rejected error, s') \<Rightarrow>
             (\<lparr>res = json_response 500 (JObj [(''error'', JStr ''Error fetching contacts'')]),
               calls = [rq],
               logs = [ConsoleError ''Error fetching contacts:'' (Some error)]\<rparr>, s'))
      else if method = ''POST'' then
        (let rq = contacts_post_call cfg connectionId (req_body req) in
         case vendor rq s of
           (Resolved response, s') \<Rightarrow>
             (\<lparr>res = json_response 200 (data response), calls = [rq], logs = []\<rparr>, s')
         | (Rejected error, s') \<Rightarrow>
             (\<lparr>res = json_response 500 (JObj [(''error'', JStr ''Error creating contact'')]),
               calls = [rq],
               logs = [ConsoleError ''Error creating contact:'' (Some error)]\<rparr>, s'))
      else
        (\<lparr>res = \<lparr>statusCode = 405, resHeaders = [(''Allow'', [''GET'', ''POST''])],
                  resBody = TextBody (''Method '' @ method @ '' Not Allowed'')\<rparr>,
          calls = [], logs = []\<rparr>, s))"

text \<open>
  The route module holds one constant (the API key) and no variable: between two requests
  only the vendor's state is carried over.
\<close>

fun run_requests :: "config \<Rightarrow> 's remote \<Rightarrow> request list \<Rightarrow> 's \<Rightarrow> handler_result list \<times> 's" where
  "run_requests cfg vendor [] s = ([], s)"
| "run_requests cfg vendor (req # reqs) s =
     (case contacts_handler cfg vendor req s of
        (h, s') \<Rightarrow> (case run_requests cfg vendor reqs s' of (hs, s'') \<Rightarrow> (h # hs, s'')))"

section \<open>The token route (pages/api/get-jwt-token.js)\<close>

definition get_jwt_token_call :: "config \<Rightarrow> http_request" where
  "get_jwt_token_call cfg =
     \<lparr>verb = VGet,
      url = ''https://embedded.runalloy.com/2023-12/users/'' @ env_str (userId cfg) @ ''/token'',
      payload = None,
      headers = [(''Authorization'', ''Bearer '' @ env_str (YOUR_API_KEY cfg)),
                 (''accept'', ''application/json'')]\<rparr>"

definition token_failure :: "http_request \<Rightarrow> js_error \<Rightarrow> handler_result" where
  "token_failure rq error =
     \<lparr>res = json_response 500 (JObj [(''error'', JStr ''Error generating JWT token'')]),
      calls = [rq],
      logs = [ConsoleError ''Error generating JWT token:'' (Some error)]\<rparr>"

text \<open>
  The request is a parameter the body never reads. \<^verbatim>\<open>response.data.token\<close> is read inside
  the \<^verbatim>\<open>try\<close>, so its \<^verbatim>\<open>TypeError\<close> is caught like a rejected call.
\<close>

definition get_jwt_token_handler :: "config \<Rightarrow> 's remote \<Rightarrow> request \<Rightarrow> 's \<Rightarrow> handler_result \<times> 's" where
  "get_jwt_token_handler cfg vendor req s =
     (let rq = get_jwt_token_call cfg in
      case vendor rq s of
        (Resolved response, s') \<Rightarrow>
          (case get_prop (data response) ''token'' of
             Inr token \<Rightarrow>
               (\<lparr>res = json_response 200 (JObj [(''token'', token)]), calls = [rq], logs = []\<rparr>, s')
           | Inl error \<Rightarrow> (token_failure rq error, s'))
      | (Rejected error, s') \<Rightarrow> (token_failure rq error, s'))"

section \<open>The browser components\<close>

text \<open>
  A component's state is the tuple of its \<^verbatim>\<open>useState\<close> cells. An event handler is run to
  completion: it takes the state and the peer (the API routes behind \<^verbatim>\<open>/api\<close>) and returns
  the state after its last setter, the calls it made and what it logged. The connection
  identifier is a string on this side; the empty string is the falsy one.
\<close>

record 'c ui_result =
  ui_state :: 'c
  ui_calls :: "http_request list"
  ui_logs :: "log_entry list"

subsection \<open>CreateContact\<close>

record create_state =
  firstName :: string
  lastName :: string

definition create_initial :: create_state where
  "create_initial = \<lparr>firstName = [], lastName = []\<rparr>"

definition create_call :: "string \<Rightarrow> create_state \<Rightarrow> http_request" where
  "create_call connectionId st =
     \<lparr>verb = VPost, url = ''/api/contacts?connectionId='' @ connectionId,
      payload = Some (JObj [(''firstName'', JStr (firstName st)), (''lastName'', JStr (lastName st))]),
      headers = []\<rparr>"

definition handleSubmit :: "'g remote \<Rightarrow> string \<Rightarrow> create_state \<Rightarrow> 'g \<Rightarrow> create_state ui_result \<times> 'g" where
  "handleSubmit gateway connectionId st g =
     (if connectionId \<noteq> [] then
        (let rq = create_call connectionId st in
         case gateway rq g of
           (Resolved response, g') \<Rightarrow>
             (\<lparr>ui_state = st\<lparr>firstName := [], lastName := []\<rparr>, ui_calls = [rq],
               ui_logs = [ConsoleLog ''Contact added:'' (data response)]\<rparr>, g')
         | (Rejected error, g') \<Rightarrow>
             (\<lparr>ui_state = st, ui_calls = [rq],
               ui_logs = [ConsoleError ''Error adding contact:'' (Some error)]\<rparr>, g'))
      else
        (\<lparr>ui_state = st, ui_calls = [],
          ui_logs = [ConsoleError ''No connection ID. Please connect to Salesforce first.'' None]\<rparr>, g))"

subsection \<open>ContactList\<close>

record list_state =
  contacts :: jsval
  isLoading :: bool

definition list_initial :: list_state where
  "list_initial = \<lparr>contacts = JArr [], isLoading = False\<rparr>"

definition list_call :: "string \<Rightarrow> http_request" where
  "list_call connectionId =
     \<lparr>verb = VGet, url = ''/api/contacts?connectionId='' @ connectionId, payload = None, headers = []\<rparr>"

definition fetchContacts :: "'g remote \<Rightarrow> string \<Rightarrow> list_state \<Rightarrow> 'g \<Rightarrow> list_state ui_result \<times> 'g" where
  "fetchContacts gateway connectionId st g =
     (if connectionId \<noteq> [] then
        (let rq = list_call connectionId; loading = st\<lparr>isLoading := True\<rparr> in
         case gateway rq g of
           (Resolved response, g') \<Rightarrow>
             (case get_prop (data response) ''contacts'' of
                Inr cs \<Rightarrow>
                  (\<lparr>ui_state = loading\<lparr>contacts := cs, isLoading := False\<rparr>, ui_calls = [rq],
                    ui_logs = []\<rparr>, g')
              | Inl error \<Rightarrow>
                  (\<lparr>ui_state = loading\<lparr>isLoading := False\<rparr>, ui_calls = [rq],
                    ui_logs = [ConsoleError ''Error fetching contacts:'' (Some error)]\<rparr>, g'))
         | (Rejected error, g') \<Rightarrow>
             (\<lparr>ui_state = loading\<lparr>isLoading := False\<rparr>, ui_calls = [rq],
               ui_logs = [ConsoleError ''Error fetching contacts:'' (Some error)]\<rparr>, g'))
      else
        (\<lparr>ui_state = st, ui_calls = [], ui_logs = []\<rparr>, g))"

text \<open>
  What ContactList returns: the prompt, the loading line, or the panel with the refresh
  button, which holds either one item per contact (its \<^verbatim>\<open>id\<close> as key, its two names) or
  the empty-list line. The panel is computed in the function's own call, so what throws
  there throws out of ContactList: \<^verbatim>\<open>contacts.length\<close> on \<^verbatim>\<open>null\<close> or \<^verbatim>\<open>undefined\<close>, a
  property of a \<^verbatim>\<open>null\<close> contact, and \<^verbatim>\<open>contacts.map\<close> on a value with a positive length
  that is not an array.

  An array and a string have their length, a number and a boolean have none
  (\<^verbatim>\<open>undefined > 0\<close> is false), and an object has one only as an own property. For that
  last case the engine's test \<^verbatim>\<open>v > 0\<close> on the property's value, which converts strings
  and arrays to numbers, is the parameter \<open>gt_zero\<close>.
\<close>

datatype contact_item = ContactItem jsval jsval jsval

datatype list_view =
    Prompt string
  | Loading string
  | ContactItems "contact_item list"
  | NoContacts string

fun render_items :: "jsval list \<Rightarrow> js_error + contact_item list" where
  "render_items [] = Inr []"
| "render_items (contact # cs) =
     (case get_prop contact ''id'' of
        Inl error \<Rightarrow> Inl error
      | Inr key \<Rightarrow>
          (case get_prop contact ''firstName'' of
             Inl error \<Rightarrow> Inl error
           | Inr fname \<Rightarrow>
               (case get_prop contact ''lastName'' of
                  Inl error \<Rightarrow> Inl error
                | Inr lname \<Rightarrow>
                    (case render_items cs of
                       Inl error \<Rightarrow> Inl error
                     | Inr items \<Rightarrow> Inr (ContactItem key fname lname # items)))))"

fun contacts_panel :: "(jsval \<Rightarrow> bool) \<Rightarrow> jsval \<Rightarrow> js_error + list_view" where
  "contacts_panel gt_zero JUndefined =
     Inl (TypeError ''Cannot read properties of undefined (reading length)'')"
| "contacts_panel gt_zero JNull =
     Inl (TypeError ''Cannot read properties of null (reading length)'')"
| "contacts_panel gt_zero (JArr cs) =
     (if cs \<noteq> [] then
        (case render_items cs of Inl error \<Rightarrow> Inl error | Inr items \<Rightarrow> Inr (ContactItems items))
      else Inr (NoContacts ''No contacts found. Please try refreshing.''))"
| "contacts_panel gt_zero (JStr t) =
     (if t \<noteq> [] then Inl (TypeError ''contacts.map is not a function'')
      else Inr (NoContacts ''No contacts found. Please try refreshing.''))"
| "contacts_panel gt_zero (JObj kvs) =
     (case map_of kvs ''length'' of
        None \<Rightarrow> Inr (NoContacts ''No contacts found. Please try refreshing.'')
      | Some v \<Rightarrow>
          (if gt_zero v then Inl (TypeError ''contacts.map is not a function'')
           else Inr (NoContacts ''No contacts found. Please try refreshing.'')))"
| "contacts_panel gt_zero v = Inr (NoContacts ''No contacts found. Please try refreshing.'')"

definition ContactList :: "(jsval \<Rightarrow> bool) \<Rightarrow> string \<Rightarrow> list_state \<Rightarrow> js_error + list_view" where
  "ContactList gt_zero connectionId st =
     (if connectionId = [] then
        Inr (Prompt ''Please complete Step 1 to connect an app and view contacts.'')
      else if isLoading st then Inr (Loading ''Loading contacts...'')
      else contacts_panel gt_zero (contacts st))"

subsection \<open>ConnectApp\<close>

text \<open>
  The button's click handler. It asks the token route for a token and, when the vendor's
  widget is on the page (\<^verbatim>\<open>window.Alloy\<close>), hands the token to it and starts its
  authentication; the two method calls are recorded as they are made, and what the widget
  does with them is the vendor's. The handler writes no state. The component's mount
  effect, which adds the vendor's script tag to the document, is not a call of the
  handler and is not traced.
\<close>

datatype widget_action = SetToken jsval | Authenticate string

record connect_result =
  cn_calls :: "http_request list"
  cn_logs :: "log_entry list"
  cn_widget :: "widget_action list"

definition token_call :: http_request where
  "token_call = \<lparr>verb = VGet, url = ''/api/get-jwt-token'', payload = None, headers = []\<rparr>"

definition fetchTokenAndAuthenticate :: "'g remote \<Rightarrow> bool \<Rightarrow> 'g \<Rightarrow> connect_result \<times> 'g" where
  "fetchTokenAndAuthenticate gateway alloy g =
     (case gateway token_call g of
        (Resolved response, g') \<Rightarrow>
          (if alloy then
             (case get_prop (data response) ''token'' of
                Inr token \<Rightarrow>
                  (\<lparr>cn_calls = [token_call], cn_logs = [],
                    cn_widget = [SetToken token, Authenticate ''crm'']\<rparr>, g')
              | Inl error \<Rightarrow>
                  (\<lparr>cn_calls = [token_call],
                    cn_logs = [ConsoleError ''Error fetching JWT token:'' (Some error)],
                    cn_widget = []\<rparr>, g'))
           else
             (\<lparr>cn_calls = [token_call], cn_logs = [ConsoleError ''Alloy SDK not found'' None],
               cn_widget = []\<rparr>, g'))
      | (Rejected error, g') \<Rightarrow>
          (\<lparr>cn_calls = [token_call],
            cn_logs = [ConsoleError ''Error fetching JWT token:'' (Some error)],
            cn_widget = []\<rparr>, g'))"

subsection \<open>Home\<close>

text \<open>
  The page holds the connection identifier and mounts ContactList and CreateContact only
  while it is truthy (\<^verbatim>\<open>connectionId && <ContactList ... />\<close>). A mounted child keeps its
  state between renders; a child that is mounted starts from its initial state, and
  ContactList's effect runs \<^verbatim>\<open>fetchContacts\<close> on mount and whenever the identifier
  changes.
\<close>

record app_state =
  connectionId :: string
  listing :: "list_state option"
  creation :: "create_state option"

definition app_initial :: app_state where
  "app_initial = \<lparr>connectionId = [], listing = None, creation = None\<rparr>"

datatype element =
    ConnectAppButton
  | ListingView "js_error + list_view"
  | CreationForm create_state

fun mounted :: "'c \<Rightarrow> 'c option \<Rightarrow> 'c" where
  "mounted init None = init"
| "mounted init (Some st) = st"

definition Home :: "(jsval \<Rightarrow> bool) \<Rightarrow> app_state \<Rightarrow> element list" where
  "Home gt_zero app =
     [ConnectAppButton]
     @ (if connectionId app \<noteq> []
        then [ListingView (ContactList gt_zero (connectionId app) (mounted list_initial (listing app)))]
        else [])
     @ (if connectionId app \<noteq> [] then [CreationForm (mounted create_initial (creation app))] else [])"

text \<open>
  What can happen to the page: the user clicks the Connect App button (with the vendor's
  widget on the page or not), the widget calls back with \<^verbatim>\<open>data.success\<close> and
  \<^verbatim>\<open>data.connectionId\<close>, the user clicks the refresh button, edits a field, or submits the
  form. The callback passes the identifier on (\<^verbatim>\<open>onConnectionEstablished\<close>) only on success;
  the copy it puts into local storage is read nowhere. Both inputs are \<^verbatim>\<open>required\<close>, so
  the browser submits only when both are filled in. Each call in the trace carries the
  component it came from.
\<close>

datatype event =
    ClickConnect bool
  | WidgetCallback bool string
  | ClickRefresh
  | ChangeFirstName string
  | ChangeLastName string
  | SubmitForm

datatype origin = FromConnectApp | FromContactList | FromCreateContact

record 'g app_result =
  app_after :: app_state
  app_calls :: "(origin \<times> http_request) list"
  peer_after :: 'g

definition run_fetch :: "'g remote \<Rightarrow> app_state \<Rightarrow> list_state \<Rightarrow> 'g \<Rightarrow> 'g app_result" where
  "run_fetch gateway app st g =
     (case fetchContacts gateway (connectionId app) st g of
        (r, g') \<Rightarrow>
          \<lparr>app_after = app\<lparr>listing := Some (ui_state r)\<rparr>,
           app_calls = map (Pair FromContactList) (ui_calls r),
           peer_after = g'\<rparr>)"

definition handleConnectionEstablished :: "'g remote \<Rightarrow> string \<Rightarrow> app_state \<Rightarrow> 'g \<Rightarrow> 'g app_result" where
  "handleConnectionEstablished gateway ident app g =
     (if ident = [] then
        \<lparr>app_after = \<lparr>connectionId = ident, listing = None, creation = None\<rparr>,
         app_calls = [], peer_after = g\<rparr>
      else if ident = connectionId app then
        \<lparr>app_after = app, app_calls = [], peer_after = g\<rparr>
      else
        run_fetch gateway
          (app\<lparr>connectionId := ident, creation := Some (mounted create_initial (creation app))\<rparr>)
          (mounted list_initial (listing app)) g)"

fun app_step :: "'g remote \<Rightarrow> event \<Rightarrow> app_state \<Rightarrow> 'g \<Rightarrow> 'g app_result" where
  "app_step gateway (ClickConnect alloy) app g =
     (case fetchTokenAndAuthenticate gateway alloy g of
        (r, g') \<Rightarrow>
          \<lparr>app_after = app, app_calls = map (Pair FromConnectApp) (cn_calls r), peer_after = g'\<rparr>)"
| "app_step gateway (WidgetCallback success ident) app g =
     (if success then handleConnectionEstablished gateway ident app g
      else \<lparr>app_after = app, app_calls = [], peer_after = g\<rparr>)"
| "app_step gateway ClickRefresh app g =
     (case listing app of
        None \<Rightarrow> \<lparr>app_after = app, app_calls = [], peer_after = g\<rparr>
      | Some st \<Rightarrow>
          (if isLoading st then \<lparr>app_after = app, app_calls = [], peer_after = g\<rparr>
           else run_fetch gateway app st g))"
| "app_step gateway (ChangeFirstName v) app g =
     \<lparr>app_after = app\<lparr>creation := map_option (\<lambda>st. st\<lparr>firstName := v\<rparr>) (creation app)\<rparr>,
      app_calls = [], peer_after = g\<rparr>"
| "app_step gateway (ChangeLastName v) app g =
     \<lparr>app_after = app\<lparr>creation := map_option (\<lambda>st. st\<lparr>lastName := v\<rparr>) (creation app)\<rparr>,
      app_calls = [], peer_after = g\<rparr>"
| "app_step gateway SubmitForm app g =
     (case creation app of
        None \<Rightarrow> \<lparr>app_after = app, app_calls = [], peer_after = g\<rparr>
      | Some st \<Rightarrow>
          (if firstName st = [] \<or> lastName st = [] then
             \<lparr>app_after = app, app_calls = [], peer_after = g\<rparr>
           else
             (case handleSubmit gateway (connectionId app) st g of
                (r, g') \<Rightarrow>
                  \<lparr>app_after = app\<lparr>creation := Some (ui_state r)\<rparr>,
                   app_calls = map (Pair FromCreateContact) (ui_calls r),
                   peer_after = g'\<rparr>)))"

fun run_events :: "'g remote \<Rightarrow> event list \<Rightarrow> app_state \<Rightarrow> 'g \<Rightarrow> 'g app_result" where
  "run_events gateway [] app g = \<lparr>app_after = app, app_calls = [], peer_after = g\<rparr>"
| "run_events gateway (e # es) app g =
     (let r = app_step gateway e app g; r' = run_events gateway es (app_after r) (peer_after r)
      in r'\<lparr>app_calls := app_calls r @ app_calls r'\<rparr>)"

text \<open>
  For the page's runs: the page keeps its children unmounted while it holds no identifier;
  an event delivers nothing unless it is the widget's successful callback with a non-empty
  identifier; and the calls of a trace that ContactList made, and those that went to the
  contacts route.
\<close>

definition unmounted_when_empty :: "app_state \<Rightarrow> bool" where
  "unmounted_when_empty app = (connectionId app = [] \<longrightarrow> listing app = None \<and> creation app = None)"

definition delivers_nothing :: "event \<Rightarrow> bool" where
  "delivers_nothing e =
     (case e of WidgetCallback success ident \<Rightarrow> \<not> success \<or> ident = [] | _ \<Rightarrow> True)"

definition listing_calls :: "(origin \<times> http_request) list \<Rightarrow> (origin \<times> http_request) list" where
  "listing_calls tr = filter (\<lambda>c. fst c = FromContactList) tr"

definition contacts_route_calls :: "(origin \<times> http_request) list \<Rightarrow> (origin \<times> http_request) list" where
  "contacts_route_calls tr = filter (\<lambda>c. take 13 (url (snd c)) = ''/api/contacts'') tr"

section \<open>The contacts route, branch by branch\<close>

lemma contacts_handler_get:
  assumes "truthy (query_connectionId req)" and "req_method req = ''GET''"
  shows "contacts_handler cfg vendor req s =
           (case vendor (contacts_get_call cfg (query_connectionId req)) s of
              (Resolved response, s') \<Rightarrow>
                (\<lparr>res = json_response 200 (data response),
                  calls = [contacts_get_call cfg (query_connectionId req)], logs = []\<rparr>, s')
            | (Rejected error, s') \<Rightarrow>
                (\<lparr>res = json_response 500 (JObj [(''error'', JStr ''Error fetching contacts'')]),
                  calls = [contacts_get_call cfg (query_connectionId req)],
                  logs = [ConsoleError ''Error fetching contacts:'' (Some error)]\<rparr>, s'))"
  using assms by (simp add: contacts_handler_def Let_def)

lemma contacts_handler_post:
  assumes "truthy (query_connectionId req)" and "req_method req = ''POST''"
  shows "contacts_handler cfg vendor req s =
           (case vendor (contacts_post_call cfg (query_connectionId req) (req_body req)) s of
              (Resolved response, s') \<Rightarrow>
                (\<lparr>res = json_response 200 (data response),
                  calls = [contacts_post_call cfg (query_connectionId req) (req_body req)], logs = []\<rparr>, s')
            | (Rejected error, s') \<Rightarrow>
                (\<lparr>res = json_response 500 (JObj [(''error'', JStr ''Error creating contact'')]),
                  calls = [contacts_post_call cfg (query_connectionId req) (req_body req)],
                  logs = [ConsoleError ''Error creating contact:'' (Some error)]\<rparr>, s'))"
  using assms by (simp add: contacts_handler_def Let_def)

lemma contacts_handler_calls_get:
  assumes "truthy (query_connectionId req)" and "req_method req = ''GET''"
  shows "calls (fst (contacts_handler cfg vendor req s)) = [contacts_get_call cfg (query_connectionId req)]"
  using assms
  by (simp add: contacts_handler_get split: prod.splits axios_result.splits)

lemma contacts_handler_calls_post:
  assumes "truthy (query_connectionId req)" and "req_method req = ''POST''"
  shows "calls (fst (contacts_handler cfg vendor req s)) =
           [contacts_post_call cfg (query_connectionId req) (req_body req)]"
  using assms
  by (simp add: contacts_handler_post split: prod.splits axios_result.splits)

lemma contacts_handler_get_state:
  assumes ro: "\<And>rq s. verb rq = VGet \<Longrightarrow> snd (vendor rq s) = s"
    and m: "req_method req = ''GET''"
  shows "snd (contacts_handler cfg vendor req s) = s"
proof (cases "truthy (query_connectionId req)")
  case False
  then show ?thesis by (simp add: contacts_handler_def Let_def)
next
  case True
  have "snd (vendor (contacts_get_call cfg (query_connectionId req)) s) = s"
    by (rule ro) (simp add: contacts_get_call_def)
  then show ?thesis
    by (cases "vendor (contacts_get_call cfg (query_connectionId req)) s")
       (auto simp: contacts_handler_get [OF True m] split: axios_result.splits)
qed

section \<open>The token route, branch by branch\<close>

lemma get_jwt_token_resolved:
  assumes "vendor (get_jwt_token_call cfg) s = (Resolved response, s')"
  shows "get_jwt_token_handler cfg vendor req s =
           (case get_prop (data response) ''token'' of
              Inr token \<Rightarrow>
                (\<lparr>res = json_response 200 (JObj [(''token'', token)]),
                  calls = [get_jwt_token_call cfg], logs = []\<rparr>, s')
            | Inl error \<Rightarrow> (token_failure (get_jwt_token_call cfg) error, s'))"
  using assms by (simp add: get_jwt_token_handler_def Let_def)

lemma get_jwt_token_rejected:
  assumes "vendor (get_jwt_token_call cfg) s = (Rejected error, s')"
  shows "get_jwt_token_handler cfg vendor req s = (token_failure (get_jwt_token_call cfg) error, s')"
  using assms by (simp add: get_jwt_token_handler_def Let_def)

lemma get_jwt_token_status:
  "statusCode (res (fst (get_jwt_token_handler cfg vendor req s))) = 200
   \<or> statusCode (res (fst (get_jwt_token_handler cfg vendor req s))) = 500"
  by (simp add: get_jwt_token_handler_def Let_def token_failure_def json_response_def
           split: prod.splits axios_result.splits sum.splits)

section \<open>The components' handlers, branch by branch\<close>

lemma handleSubmit_active:
  assumes "cid \<noteq> []"
  shows "handleSubmit gateway cid st g =
           (case gateway (create_call cid st) g of
              (Resolved response, g') \<Rightarrow>
                (\<lparr>ui_state = st\<lparr>firstName := [], lastName := []\<rparr>, ui_calls = [create_call cid st],
                  ui_logs = [ConsoleLog ''Contact added:'' (data response)]\<rparr>, g')
            | (Rejected error, g') \<Rightarrow>
                (\<lparr>ui_state = st, ui_calls = [create_call cid st],
                  ui_logs = [ConsoleError ''Error adding contact:'' (Some error)]\<rparr>, g'))"
  using assms by (simp add: handleSubmit_def Let_def)

lemma fetchContacts_rejected:
  assumes "cid \<noteq> []" and "gateway (list_call cid) g = (Rejected error, g')"
  shows "fetchContacts gateway cid ls g =
           (\<lparr>ui_state = ls\<lparr>isLoading := False\<rparr>, ui_calls = [list_call cid],
             ui_logs = [ConsoleError ''Error fetching contacts:'' (Some error)]\<rparr>, g')"
  using assms by (simp add: fetchContacts_def Let_def)

lemma fetchContacts_inactive:
  "fetchContacts gateway [] ls g = (\<lparr>ui_state = ls, ui_calls = [], ui_logs = []\<rparr>, g)"
  by (simp add: fetchContacts_def)

section \<open>The page's runs\<close>

lemma run_fetch_connectionId:
  "connectionId (app_after (run_fetch gateway app st g)) = connectionId app"
  by (simp add: run_fetch_def split: prod.splits)

lemma fetchTokenAndAuthenticate_calls:
  "cn_calls (fst (fetchTokenAndAuthenticate gateway alloy g)) = [token_call]"
  by (simp add: fetchTokenAndAuthenticate_def split: prod.splits axios_result.splits sum.splits)

lemma app_step_connect:
  "app_after (app_step gateway (ClickConnect alloy) app g) = app
   \<and> app_calls (app_step gateway (ClickConnect alloy) app g) = [(FromConnectApp, token_call)]"
  using fetchTokenAndAuthenticate_calls [of gateway alloy g]
  by (cases "fetchTokenAndAuthenticate gateway alloy g") simp

lemma app_step_unmounted:
  assumes "unmounted_when_empty app"
  shows "unmounted_when_empty (app_after (app_step gateway e app g))"
proof (cases e)
  case (ClickConnect alloy)
  then show ?thesis using assms by (simp only: app_step_connect)
next
  case (WidgetCallback success ident)
  then show ?thesis
    using assms
    by (simp add: handleConnectionEstablished_def unmounted_when_empty_def run_fetch_connectionId)
next
  case ClickRefresh
  then show ?thesis
    using assms
    by (auto simp: unmounted_when_empty_def run_fetch_connectionId split: option.splits)
next
  case (ChangeFirstName v)
  then show ?thesis using assms by (simp add: unmounted_when_empty_def)
next
  case (ChangeLastName v)
  then show ?thesis using assms by (simp add: unmounted_when_empty_def)
next
  case SubmitForm
  then show ?thesis
    using assms
    by (auto simp: unmounted_when_empty_def split: option.splits prod.splits)
qed

lemma run_events_unmounted:
  "unmounted_when_empty app \<Longrightarrow> unmounted_when_empty (app_after (run_events gateway evs app g))"
proof (induction evs arbitrary: app g)
  case Nil
  then show ?case by simp
next
  case (Cons e es)
  then show ?case by (simp add: Let_def app_step_unmounted)
qed

lemma app_step_quiet:
  assumes "unmounted_when_empty app" and "connectionId app = []" and "delivers_nothing e"
  shows "set (app_calls (app_step gateway e app g)) \<subseteq> {(FromConnectApp, token_call)}
       \<and> connectionId (app_after (app_step gateway e app g)) = []"
proof (cases e)
  case (ClickConnect alloy)
  then show ?thesis using assms(2) by (simp only: app_step_connect) simp
next
  case (WidgetCallback success ident)
  then show ?thesis
    using assms by (auto simp: delivers_nothing_def handleConnectionEstablished_def)
next
  case ClickRefresh
  then show ?thesis using assms by (simp add: unmounted_when_empty_def)
next
  case (ChangeFirstName v)
  then show ?thesis using assms by simp
next
  case (ChangeLastName v)
  then show ?thesis using assms by simp
next
  case SubmitForm
  then show ?thesis using assms by (simp add: unmounted_when_empty_def)
qed

lemma run_events_quiet:
  assumes "unmounted_when_empty app" and "connectionId app = []"
    and "\<forall>e \<in> set evs. delivers_nothing e"
  shows "set (app_calls (run_events gateway evs app g)) \<subseteq> {(FromConnectApp, token_call)}
       \<and> connectionId (app_after (run_events gateway evs app g)) = []"
  using assms
proof (induction evs arbitrary: app g)
  case Nil
  then show ?case by simp
next
  case (Cons e es)
  have d: "delivers_nothing e" using Cons.prems(3) by simp
  note q = app_step_quiet [OF Cons.prems(1) Cons.prems(2) d, of gateway g]
  have u: "unmounted_when_empty (app_after (app_step gateway e app g))"
    using Cons.prems(1) by (rule app_step_unmounted)
  have r: "\<forall>e \<in> set es. delivers_nothing e" using Cons.prems(3) by simp
  note ih = Cons.IH [OF u conjunct2 [OF q] r, of "peer_after (app_step gateway e app g)"]
  show ?case using ih q by (simp add: Let_def)
qed

lemma only_token_calls:
  assumes "set tr \<subseteq> {(FromConnectApp, token_call)}"
  shows "listing_calls tr = [] \<and> contacts_route_calls tr = []"
proof -
  have "\<forall>c \<in> set tr. c = (FromConnectApp, token_call)" using assms by auto
  then show ?thesis
    by (auto simp: listing_calls_def contacts_route_calls_def filter_empty_conv token_call_def)
qed

lemma Home_empty: "connectionId app = [] \<Longrightarrow> Home gt_zero app = [ConnectAppButton]"
  by (simp add: Home_def)

section \<open>The contacts route: missing connection identifier\<close>

text \<open>
  C1. A request to the contacts route whose \<^verbatim>\<open>connectionId\<close> query parameter is absent
  or the empty string is answered with status 400 and the body
  \<^verbatim>\<open>{error: 'ConnectionId is required'}\<close>, whatever its method; no outbound call is made,
  nothing is logged and the vendor's state is untouched.
\<close>

theorem contacts_missing_connectionId:
  assumes "query_connectionId req = QUndefined \<or> query_connectionId req = QString []"
  shows "contacts_handler cfg vendor req s =
           (\<lparr>res = \<lparr>statusCode = 400, resHeaders = [],
                     resBody = JsonBody (JObj [(''error'', JStr ''ConnectionId is required'')])\<rparr>,
             calls = [], logs = []\<rparr>, s)"
  using assms by (auto simp: contacts_handler_def json_response_def Let_def)

theorem contacts_missing_connectionId_witness:
  "contacts_handler \<lparr>YOUR_API_KEY = Some ''k'', userId = Some ''u''\<rparr>
       (\<lambda>rq s. (Resolved \<lparr>data = JArr s\<rparr>, s))
       \<lparr>req_method = ''DELETE'', query_connectionId = QString [], req_body = JUndefined\<rparr>
       [JStr ''ada'']
     = (\<lparr>res = \<lparr>statusCode = 400, resHeaders = [],
                resBody = JsonBody (JObj [(''error'', JStr ''ConnectionId is required'')])\<rparr>,
         calls = [], logs = []\<rparr>, [JStr ''ada''])"
  using contacts_missing_connectionId
    [of "\<lparr>req_method = ''DELETE'', query_connectionId = QString [], req_body = JUndefined\<rparr>"
        "\<lparr>YOUR_API_KEY = Some ''k'', userId = Some ''u''\<rparr>"
        "\<lambda>rq s. (Resolved \<lparr>data = JArr s\<rparr>, s)" "[JStr ''ada'']"]
  by simp

section \<open>The contacts route: pass-through on success\<close>

text \<open>
  C2. With a truthy \<^verbatim>\<open>connectionId\<close>, a GET makes exactly one call, a read of the vendor's
  contacts endpoint with the identifier in the query string and the API key as bearer
  credential, and when that call resolves the route answers 200 with the vendor's
  \<^verbatim>\<open>response.data\<close> unchanged. A POST makes exactly one call, a write to the same
  endpoint whose payload is the request body unchanged, and when that call resolves the
  route answers 200 with the vendor's \<^verbatim>\<open>response.data\<close> unchanged.
\<close>

theorem contacts_success_verbatim:
  assumes "truthy (query_connectionId req)"
  shows "(req_method req = ''GET'' \<longrightarrow>
            calls (fst (contacts_handler cfg vendor req s)) =
              [\<lparr>verb = VGet,
                url = ''https://embedded.runalloy.com/2023-12/one/crm/contacts?connectionId=''
                        @ template_str (query_connectionId req),
                payload = None,
                headers = [(''Authorization'', ''bearer '' @ env_str (YOUR_API_KEY cfg)),
                           (''accept'', ''application/json'')]\<rparr>]
          \<and> (\<forall>response s'.
                 vendor (contacts_get_call cfg (query_connectionId req)) s = (Resolved response, s') \<longrightarrow>
                 res (fst (contacts_handler cfg vendor req s)) =
                   \<lparr>statusCode = 200, resHeaders = [], resBody = JsonBody (data response)\<rparr>
               \<and> snd (contacts_handler cfg vendor req s) = s'))
       \<and> (req_method req = ''POST'' \<longrightarrow>
            calls (fst (contacts_handler cfg vendor req s)) =
              [\<lparr>verb = VPost,
                url = ''https://embedded.runalloy.com/2023-12/one/crm/contacts?connectionId=''
                        @ template_str (query_connectionId req),
                payload = Some (req_body req),
                headers = [(''Authorization'', ''bearer '' @ env_str (YOUR_API_KEY cfg)),
                           (''accept'', ''application/json''),
                           (''content-type'', ''application/json'')]\<rparr>]
          \<and> (\<forall>response s'.
                 vendor (contacts_post_call cfg (query_connectionId req) (req_body req)) s
                   = (Resolved response, s') \<longrightarrow>
                 res (fst (contacts_handler cfg vendor req s)) =
                   \<lparr>statusCode = 200, resHeaders = [], resBody = JsonBody (data response)\<rparr>
               \<and> snd (contacts_handler cfg vendor req s) = s'))"
proof (intro conjI impI allI)
  assume m: "req_method req = ''GET''"
  show "calls (fst (contacts_handler cfg vendor req s)) =
          [\<lparr>verb = VGet,
            url = ''https://embedded.runalloy.com/2023-12/one/crm/contacts?connectionId=''
                    @ template_str (query_connectionId req),
            payload = None,
            headers = [(''Authorization'', ''bearer '' @ env_str (YOUR_API_KEY cfg)),
                       (''accept'', ''application/json'')]\<rparr>]"
    using contacts_handler_calls_get [OF assms m]
    by (simp add: contacts_get_call_def contacts_url_def)
next
  fix response s'
  assume m: "req_method req = ''GET''"
    and v: "vendor (contacts_get_call cfg (query_connectionId req)) s = (Resolved response, s')"
  show "res (fst (contacts_handler cfg vendor req s)) =
          \<lparr>statusCode = 200, resHeaders = [], resBody = JsonBody (data response)\<rparr>"
    by (simp add: contacts_handler_get [OF assms m] v json_response_def)
  show "snd (contacts_handler cfg vendor req s) = s'"
    by (simp add: contacts_handler_get [OF assms m] v)
next
  assume m: "req_method req = ''POST''"
  show "calls (fst (contacts_handler cfg vendor req s)) =
          [\<lparr>verb = VPost,
            url = ''https://embedded.runalloy.com/2023-12/one/crm/contacts?connectionId=''
                    @ template_str (query_connectionId req),
            payload = Some (req_body req),
            headers = [(''Authorization'', ''bearer '' @ env_str (YOUR_API_KEY cfg)),
                       (''accept'', ''application/json''),
                       (''content-type'', ''application/json'')]\<rparr>]"
    using contacts_handler_calls_post [OF assms m]
    by (simp add: contacts_post_call_def contacts_url_def)
next
  fix response s'
  assume m: "req_method req = ''POST''"
    and v: "vendor (contacts_post_call cfg (query_connectionId req) (req_body req)) s
              = (Resolved response, s')"
  show "res (fst (contacts_handler cfg vendor req s)) =
          \<lparr>statusCode = 200, resHeaders = [], resBody = JsonBody (data response)\<rparr>"
    by (simp add: contacts_handler_post [OF assms m] v json_response_def)
  show "snd (contacts_handler cfg vendor req s) = s'"
    by (simp add: contacts_handler_post [OF assms m] v)
qed

theorem contacts_success_verbatim_witness:
  "res (fst (contacts_handler \<lparr>YOUR_API_KEY = Some ''key'', userId = Some ''u1''\<rparr>
          (\<lambda>rq s. (Resolved \<lparr>data = (case payload rq of None \<Rightarrow> JObj [(''contacts'', JArr s)] | Some b \<Rightarrow> b)\<rparr>,
                    (case payload rq of None \<Rightarrow> s | Some b \<Rightarrow> s @ [b])))
          \<lparr>req_method = ''GET'', query_connectionId = QString ''c1'', req_body = JUndefined\<rparr>
          [JObj [(''id'', JNum 1)]]))
     = \<lparr>statusCode = 200, resHeaders = [],
        resBody = JsonBody (JObj [(''contacts'', JArr [JObj [(''id'', JNum 1)]])])\<rparr>
   \<and> res (fst (contacts_handler \<lparr>YOUR_API_KEY = Some ''key'', userId = Some ''u1''\<rparr>
          (\<lambda>rq s. (Resolved \<lparr>data = (case payload rq of None \<Rightarrow> JObj [(''contacts'', JArr s)] | Some b \<Rightarrow> b)\<rparr>,
                    (case payload rq of None \<Rightarrow> s | Some b \<Rightarrow> s @ [b])))
          \<lparr>req_method = ''POST'', query_connectionId = QString ''c1'',
            req_body = JObj [(''firstName'', JStr ''Ada''), (''lastName'', JStr ''Lovelace'')]\<rparr>
          []))
     = \<lparr>statusCode = 200, resHeaders = [],
        resBody = JsonBody (JObj [(''firstName'', JStr ''Ada''), (''lastName'', JStr ''Lovelace'')])\<rparr>"
  using contacts_success_verbatim
      [of "\<lparr>req_method = ''GET'', query_connectionId = QString ''c1'', req_body = JUndefined\<rparr>"
          "\<lparr>YOUR_API_KEY = Some ''key'', userId = Some ''u1''\<rparr>"
          "\<lambda>rq s. (Resolved \<lparr>data = (case payload rq of None \<Rightarrow> JObj [(''contacts'', JArr s)] | Some b \<Rightarrow> b)\<rparr>,
                    (case payload rq of None \<Rightarrow> s | Some b \<Rightarrow> s @ [b]))"
          "[JObj [(''id'', JNum 1)]]"]
    contacts_success_verbatim
      [of "\<lparr>req_method = ''POST'', query_connectionId = QString ''c1'',
            req_body = JObj [(''firstName'', JStr ''Ada''), (''lastName'', JStr ''Lovelace'')]\<rparr>"
          "\<lparr>YOUR_API_KEY = Some ''key'', userId = Some ''u1''\<rparr>"
          "\<lambda>rq s. (Resolved \<lparr>data = (case payload rq of None \<Rightarrow> JObj [(''contacts'', JArr s)] | Some b \<Rightarrow> b)\<rparr>,
                    (case payload rq of None \<Rightarrow> s | Some b \<Rightarrow> s @ [b]))"
          "[]"]
  by (simp add: contacts_get_call_def contacts_post_call_def)

section \<open>The contacts route: other methods\<close>

text \<open>
  C3, as stated: every request to the contacts route with a verb other than GET or POST is
  answered 405 with an Allow header. It fails for a DELETE that carries no
  \<^verbatim>\<open>connectionId\<close>: the identifier is checked before the method, so the answer is 400
  and no Allow header is set.
\<close>

theorem contacts_method_not_allowed_counterexample:
  "statusCode (res (fst (contacts_handler \<lparr>YOUR_API_KEY = Some ''key'', userId = Some ''u1''\<rparr>
       (\<lambda>rq s. (Resolved \<lparr>data = JNull\<rparr>, s))
       \<lparr>req_method = ''DELETE'', query_connectionId = QUndefined, req_body = JUndefined\<rparr> ()))) = 400
   \<and> statusCode (res (fst (contacts_handler \<lparr>YOUR_API_KEY = Some ''key'', userId = Some ''u1''\<rparr>
       (\<lambda>rq s. (Resolved \<lparr>data = JNull\<rparr>, s))
       \<lparr>req_method = ''DELETE'', query_connectionId = QUndefined, req_body = JUndefined\<rparr> ()))) \<noteq> 405
   \<and> resHeaders (res (fst (contacts_handler \<lparr>YOUR_API_KEY = Some ''key'', userId = Some ''u1''\<rparr>
       (\<lambda>rq s. (Resolved \<lparr>data = JNull\<rparr>, s))
       \<lparr>req_method = ''DELETE'', query_connectionId = QUndefined, req_body = JUndefined\<rparr> ()))) = []"
  by (simp add: contacts_handler_def json_response_def)

text \<open>
  C3, amended. A request to the contacts route with a truthy \<^verbatim>\<open>connectionId\<close> and a verb
  other than GET and POST is answered 405 with the header Allow set to GET and POST and
  the text \<^verbatim>\<open>Method <verb> Not Allowed\<close>; no outbound call is made.
\<close>

theorem contacts_method_not_allowed:
  assumes "truthy (query_connectionId req)"
    and "req_method req \<noteq> ''GET''" and "req_method req \<noteq> ''POST''"
  shows "contacts_handler cfg vendor req s =
           (\<lparr>res = \<lparr>statusCode = 405, resHeaders = [(''Allow'', [''GET'', ''POST''])],
                     resBody = TextBody (''Method '' @ req_method req @ '' Not Allowed'')\<rparr>,
             calls = [], logs = []\<rparr>, s)"
  using assms by (simp add: contacts_handler_def Let_def)

theorem contacts_method_not_allowed_witness:
  "contacts_handler \<lparr>YOUR_API_KEY = Some ''key'', userId = Some ''u1''\<rparr>
       (\<lambda>rq s. (Resolved \<lparr>data = JNull\<rparr>, s))
       \<lparr>req_method = ''DELETE'', query_connectionId = QString ''c1'', req_body = JUndefined\<rparr> ()
     = (\<lparr>res = \<lparr>statusCode = 405, resHeaders = [(''Allow'', [''GET'', ''POST''])],
                resBody = TextBody ''Method DELETE Not Allowed''\<rparr>,
         calls = [], logs = []\<rparr>, ())"
  using contacts_method_not_allowed
      [of "\<lparr>req_method = ''DELETE'', query_connectionId = QString ''c1'', req_body = JUndefined\<rparr>"
          "\<lparr>YOUR_API_KEY = Some ''key'', userId = Some ''u1''\<rparr>"
          "\<lambda>rq s. (Resolved \<lparr>data = JNull\<rparr>, s)" "()"]
  by simp

section \<open>The token route: success\<close>

text \<open>
  C4. When the vendor's token call resolves with an object that has a \<^verbatim>\<open>token\<close> property,
  the token route answers 200 with the body \<^verbatim>\<open>{token}\<close> holding exactly that value, after
  exactly one outbound call.
\<close>

theorem get_jwt_token_verbatim:
  assumes "vendor (get_jwt_token_call cfg) s = (Resolved response, s')"
    and "data response = JObj kvs" and "map_of kvs ''token'' = Some t"
  shows "get_jwt_token_handler cfg vendor req s =
           (\<lparr>res = \<lparr>statusCode = 200, resHeaders = [], resBody = JsonBody (JObj [(''token'', t)])\<rparr>,
             calls = [get_jwt_token_call cfg], logs = []\<rparr>, s')"
  using assms by (simp add: get_jwt_token_resolved json_response_def)

theorem get_jwt_token_verbatim_witness:
  "get_jwt_token_handler \<lparr>YOUR_API_KEY = Some ''key'', userId = Some ''u1''\<rparr>
       (\<lambda>rq s. (Resolved \<lparr>data = JObj [(''token'', JStr ''eyJhbGciOi'')]\<rparr>, Suc s))
       \<lparr>req_method = ''GET'', query_connectionId = QUndefined, req_body = JUndefined\<rparr> 0
     = (\<lparr>res = \<lparr>statusCode = 200, resHeaders = [],
                resBody = JsonBody (JObj [(''token'', JStr ''eyJhbGciOi'')])\<rparr>,
         calls = [\<lparr>verb = VGet, url = ''https://embedded.runalloy.com/2023-12/users/u1/token'',
                   payload = None,
                   headers = [(''Authorization'', ''Bearer key''), (''accept'', ''application/json'')]\<rparr>],
         logs = []\<rparr>, Suc 0)"
  using get_jwt_token_verbatim
      [of "\<lambda>rq s. (Resolved \<lparr>data = JObj [(''token'', JStr ''eyJhbGciOi'')]\<rparr>, Suc s)"
          "\<lparr>YOUR_API_KEY = Some ''key'', userId = Some ''u1''\<rparr>" 0
          "\<lparr>data = JObj [(''token'', JStr ''eyJhbGciOi'')]\<rparr>" "Suc 0"
          "[(''token'', JStr ''eyJhbGciOi'')]" "JStr ''eyJhbGciOi''"
          "\<lparr>req_method = ''GET'', query_connectionId = QUndefined, req_body = JUndefined\<rparr>"]
  by (simp add: get_jwt_token_call_def)

section \<open>The token route: failures\<close>

text \<open>
  C5, as stated: a vendor answer that lacks the \<^verbatim>\<open>token\<close> field is reported as the same
  500 failure as an unreachable vendor. It fails for a vendor that answers with the empty
  object: \<^verbatim>\<open>response.data.token\<close> is \<^verbatim>\<open>undefined\<close>, nothing throws, and the route answers
  200.
\<close>

theorem get_jwt_token_failures_counterexample:
  "statusCode (res (fst (get_jwt_token_handler \<lparr>YOUR_API_KEY = Some ''key'', userId = Some ''u1''\<rparr>
       (\<lambda>rq s. (Resolved \<lparr>data = JObj []\<rparr>, s))
       \<lparr>req_method = ''GET'', query_connectionId = QUndefined, req_body = JUndefined\<rparr> ()))) = 200
   \<and> res (fst (get_jwt_token_handler \<lparr>YOUR_API_KEY = Some ''key'', userId = Some ''u1''\<rparr>
       (\<lambda>rq s. (Resolved \<lparr>data = JObj []\<rparr>, s))
       \<lparr>req_method = ''GET'', query_connectionId = QUndefined, req_body = JUndefined\<rparr> ()))
     \<noteq> \<lparr>statusCode = 500, resHeaders = [],
         resBody = JsonBody (JObj [(''error'', JStr ''Error generating JWT token'')])\<rparr>"
  by (simp add: get_jwt_token_handler_def json_response_def)

text \<open>
  C5, amended. Every rejected vendor call (vendor unreachable, status outside 2xx) and every
  resolved call whose body is \<^verbatim>\<open>null\<close> or \<^verbatim>\<open>undefined\<close> is answered with the one generic
  500 \<^verbatim>\<open>{error: 'Error generating JWT token'}\<close>. A resolved call whose body is an object
  without a \<^verbatim>\<open>token\<close> property is answered 200 with \<^verbatim>\<open>{token: undefined}\<close>.
\<close>

theorem get_jwt_token_failures:
  "(\<forall>error s'. vendor (get_jwt_token_call cfg) s = (Rejected error, s') \<longrightarrow>
       res (fst (get_jwt_token_handler cfg vendor req s)) =
         \<lparr>statusCode = 500, resHeaders = [],
          resBody = JsonBody (JObj [(''error'', JStr ''Error generating JWT token'')])\<rparr>)
   \<and> (\<forall>response s'. vendor (get_jwt_token_call cfg) s = (Resolved response, s')
          \<and> (data response = JNull \<or> data response = JUndefined) \<longrightarrow>
       res (fst (get_jwt_token_handler cfg vendor req s)) =
         \<lparr>statusCode = 500, resHeaders = [],
          resBody = JsonBody (JObj [(''error'', JStr ''Error generating JWT token'')])\<rparr>)
   \<and> (\<forall>response s' kvs. vendor (get_jwt_token_call cfg) s = (Resolved response, s')
          \<and> data response = JObj kvs \<and> map_of kvs ''token'' = None \<longrightarrow>
       res (fst (get_jwt_token_handler cfg vendor req s)) =
         \<lparr>statusCode = 200, resHeaders = [], resBody = JsonBody (JObj [(''token'', JUndefined)])\<rparr>)"
  by (auto simp: get_jwt_token_resolved get_jwt_token_rejected token_failure_def json_response_def)

theorem get_jwt_token_failures_witness:
  "res (fst (get_jwt_token_handler \<lparr>YOUR_API_KEY = Some ''key'', userId = Some ''u1''\<rparr>
        (\<lambda>rq s. (Rejected (HttpError 401 (JObj [(''message'', JStr ''bad key'')])), s))
        \<lparr>req_method = ''GET'', query_connectionId = QUndefined, req_body = JUndefined\<rparr> ()))
     = \<lparr>statusCode = 500, resHeaders = [],
        resBody = JsonBody (JObj [(''error'', JStr ''Error generating JWT token'')])\<rparr>
   \<and> res (fst (get_jwt_token_handler \<lparr>YOUR_API_KEY = Some ''key'', userId = Some ''u1''\<rparr>
        (\<lambda>rq s. (Resolved \<lparr>data = JNull\<rparr>, s))
        \<lparr>req_method = ''GET'', query_connectionId = QUndefined, req_body = JUndefined\<rparr> ()))
     = \<lparr>statusCode = 500, resHeaders = [],
        resBody = JsonBody (JObj [(''error'', JStr ''Error generating JWT token'')])\<rparr>
   \<and> res (fst (get_jwt_token_handler \<lparr>YOUR_API_KEY = Some ''key'', userId = Some ''u1''\<rparr>
        (\<lambda>rq s. (Resolved \<lparr>data = JObj [(''message'', JStr ''ok'')]\<rparr>, s))
        \<lparr>req_method = ''GET'', query_connectionId = QUndefined, req_body = JUndefined\<rparr> ()))
     = \<lparr>statusCode = 200, resHeaders = [], resBody = JsonBody (JObj [(''token'', JUndefined)])\<rparr>"
  using get_jwt_token_failures
      [of "\<lambda>rq s. (Rejected (HttpError 401 (JObj [(''message'', JStr ''bad key'')])), s)"
          "\<lparr>YOUR_API_KEY = Some ''key'', userId = Some ''u1''\<rparr>" "()"
          "\<lparr>req_method = ''GET'', query_connectionId = QUndefined, req_body = JUndefined\<rparr>"]
    get_jwt_token_failures
      [of "\<lambda>rq s. (Resolved \<lparr>data = JNull\<rparr>, s)"
          "\<lparr>YOUR_API_KEY = Some ''key'', userId = Some ''u1''\<rparr>" "()"
          "\<lparr>req_method = ''GET'', query_connectionId = QUndefined, req_body = JUndefined\<rparr>"]
    get_jwt_token_failures
      [of "\<lambda>rq s. (Resolved \<lparr>data = JObj [(''message'', JStr ''ok'')]\<rparr>, s)"
          "\<lparr>YOUR_API_KEY = Some ''key'', userId = Some ''u1''\<rparr>" "()"
          "\<lparr>req_method = ''GET'', query_connectionId = QUndefined, req_body = JUndefined\<rparr>"]
  by simp

section \<open>The contacts route: vendor failures\<close>

text \<open>
  C6, as stated: every vendor-side error during a GET or a POST, malformed JSON among
  them, gives the generic 500, and the raw vendor body is never in the answer. It fails
  for a vendor that answers a GET with status 200 and a body that is not JSON: axios
  resolves the call with the raw text, nothing is thrown, and the route answers 200 with
  that text as its body.
\<close>

theorem contacts_vendor_failure_counterexample:
  "res (fst (contacts_handler \<lparr>YOUR_API_KEY = Some ''secret-key'', userId = Some ''u1''\<rparr>
        (via_axios (\<lambda>rq s. (Answer 200 (Unparsable ''[{id: 1''), s)))
        \<lparr>req_method = ''GET'', query_connectionId = QString ''c1'', req_body = JUndefined\<rparr> ()))
     = \<lparr>statusCode = 200, resHeaders = [], resBody = JsonBody (JStr ''[{id: 1'')\<rparr>
   \<and> res (fst (contacts_handler \<lparr>YOUR_API_KEY = Some ''secret-key'', userId = Some ''u1''\<rparr>
        (via_axios (\<lambda>rq s. (Answer 200 (Unparsable ''[{id: 1''), s)))
        \<lparr>req_method = ''GET'', query_connectionId = QString ''c1'', req_body = JUndefined\<rparr> ()))
     \<noteq> \<lparr>statusCode = 500, resHeaders = [],
         resBody = JsonBody (JObj [(''error'', JStr ''Error fetching contacts'')])\<rparr>"
  by (simp add: contacts_handler_def via_axios_def json_response_def)

text \<open>
  C6, amended. With a truthy \<^verbatim>\<open>connectionId\<close>, whenever the vendor call of a GET or a POST
  is rejected, whatever the error and whatever the API key, the route answers 500 with the
  fixed body \<^verbatim>\<open>{error: 'Error fetching contacts'}\<close> (GET) or
  \<^verbatim>\<open>{error: 'Error creating contact'}\<close> (POST): the answer is a constant of the method,
  so it holds neither the key nor anything of the vendor's error. Through axios that is
  the case when the vendor does not answer (network failure) and when it answers with a
  status outside 200..299 (4xx, 5xx), whatever the body. An answer with a status in
  200..299 whose body is not JSON is no failure for the route: it answers 200 with the
  raw text.
\<close>

theorem contacts_vendor_failure:
  assumes "truthy (query_connectionId req)"
  shows "(req_method req = ''GET'' \<longrightarrow>
            (\<forall>error s'. vendor (contacts_get_call cfg (query_connectionId req)) s = (Rejected error, s') \<longrightarrow>
               res (fst (contacts_handler cfg vendor req s)) =
                 \<lparr>statusCode = 500, resHeaders = [],
                  resBody = JsonBody (JObj [(''error'', JStr ''Error fetching contacts'')])\<rparr>)
          \<and> (\<forall>m s'. server (contacts_get_call cfg (query_connectionId req)) s = (NoAnswer m, s') \<longrightarrow>
               res (fst (contacts_handler cfg (via_axios server) req s)) =
                 \<lparr>statusCode = 500, resHeaders = [],
                  resBody = JsonBody (JObj [(''error'', JStr ''Error fetching contacts'')])\<rparr>)
          \<and> (\<forall>st b s'. server (contacts_get_call cfg (query_connectionId req)) s = (Answer st b, s')
                 \<and> (st < 200 \<or> 300 \<le> st) \<longrightarrow>
               res (fst (contacts_handler cfg (via_axios server) req s)) =
                 \<lparr>statusCode = 500, resHeaders = [],
                  resBody = JsonBody (JObj [(''error'', JStr ''Error fetching contacts'')])\<rparr>)
          \<and> (\<forall>st t s'. server (contacts_get_call cfg (query_connectionId req)) s
                   = (Answer st (Unparsable t), s') \<and> 200 \<le> st \<and> st < 300 \<longrightarrow>
               res (fst (contacts_handler cfg (via_axios server) req s)) =
                 \<lparr>statusCode = 200, resHeaders = [], resBody = JsonBody (JStr t)\<rparr>))
       \<and> (req_method req = ''POST'' \<longrightarrow>
            (\<forall>error s'. vendor (contacts_post_call cfg (query_connectionId req) (req_body req)) s
                          = (Rejected error, s') \<longrightarrow>
               res (fst (contacts_handler cfg vendor req s)) =
                 \<lparr>statusCode = 500, resHeaders = [],
                  resBody = JsonBody (JObj [(''error'', JStr ''Error creating contact'')])\<rparr>)
          \<and> (\<forall>m s'. server (contacts_post_call cfg (query_connectionId req) (req_body req)) s
                          = (NoAnswer m, s') \<longrightarrow>
               res (fst (contacts_handler cfg (via_axios server) req s)) =
                 \<lparr>statusCode = 500, resHeaders = [],
                  resBody = JsonBody (JObj [(''error'', JStr ''Error creating contact'')])\<rparr>)
          \<and> (\<forall>st b s'. server (contacts_post_call cfg (query_connectionId req) (req_body req)) s
                   = (Answer st b, s') \<and> (st < 200 \<or> 300 \<le> st) \<longrightarrow>
               res (fst (contacts_handler cfg (via_axios server) req s)) =
                 \<lparr>statusCode = 500, resHeaders = [],
                  resBody = JsonBody (JObj [(''error'', JStr ''Error creating contact'')])\<rparr>)
          \<and> (\<forall>st t s'. server (contacts_post_call cfg (query_connectionId req) (req_body req)) s
                   = (Answer st (Unparsable t), s') \<and> 200 \<le> st \<and> st < 300 \<longrightarrow>
               res (fst (contacts_handler cfg (via_axios server) req s)) =
                 \<lparr>statusCode = 200, resHeaders = [], resBody = JsonBody (JStr t)\<rparr>))"
  using assms
  by (auto simp: contacts_handler_get contacts_handler_post json_response_def via_axios_def)

theorem contacts_vendor_failure_witness:
  "res (fst (contacts_handler \<lparr>YOUR_API_KEY = Some ''secret-key'', userId = Some ''u1''\<rparr>
        (\<lambda>rq s. (Rejected (HttpError 403 (JObj [(''message'', JStr ''vendor says no'')])), s))
        \<lparr>req_method = ''GET'', query_connectionId = QString ''c1'', req_body = JUndefined\<rparr> ()))
     = \<lparr>statusCode = 500, resHeaders = [],
        resBody = JsonBody (JObj [(''error'', JStr ''Error fetching contacts'')])\<rparr>
   \<and> res (fst (contacts_handler \<lparr>YOUR_API_KEY = Some ''secret-key'', userId = Some ''u1''\<rparr>
        (via_axios (\<lambda>rq s. (Answer 502 (Unparsable ''<html>Bad Gateway</html>''), s)))
        \<lparr>req_method = ''GET'', query_connectionId = QString ''c1'', req_body = JUndefined\<rparr> ()))
     = \<lparr>statusCode = 500, resHeaders = [],
        resBody = JsonBody (JObj [(''error'', JStr ''Error fetching contacts'')])\<rparr>
   \<and> res (fst (contacts_handler \<lparr>YOUR_API_KEY = Some ''secret-key'', userId = Some ''u1''\<rparr>
        (via_axios (\<lambda>rq s. (Answer 200 (Unparsable ''[{id: 1''), s)))
        \<lparr>req_method = ''GET'', query_connectionId = QString ''c1'', req_body = JUndefined\<rparr> ()))
     = \<lparr>statusCode = 200, resHeaders = [], resBody = JsonBody (JStr ''[{id: 1'')\<rparr>
   \<and> res (fst (contacts_handler \<lparr>YOUR_API_KEY = Some ''secret-key'', userId = Some ''u1''\<rparr>
        (via_axios (\<lambda>rq s. (NoAnswer ''ECONNREFUSED'', s)))
        \<lparr>req_method = ''POST'', query_connectionId = QString ''c1'',
          req_body = JObj [(''firstName'', JStr ''Ada''), (''lastName'', JStr ''Lovelace'')]\<rparr> ()))
     = \<lparr>statusCode = 500, resHeaders = [],
        resBody = JsonBody (JObj [(''error'', JStr ''Error creating contact'')])\<rparr>"
  using contacts_vendor_failure
      [of "\<lparr>req_method = ''GET'', query_connectionId = QString ''c1'', req_body = JUndefined\<rparr>"
          "\<lambda>rq s. (Rejected (HttpError 403 (JObj [(''message'', JStr ''vendor says no'')])), s)"
          "\<lparr>YOUR_API_KEY = Some ''secret-key'', userId = Some ''u1''\<rparr>" "()"
          "\<lambda>rq s. (Answer 502 (Unparsable ''<html>Bad Gateway</html>''), s)"]
    contacts_vendor_failure
      [of "\<lparr>req_method = ''GET'', query_connectionId = QString ''c1'', req_body = JUndefined\<rparr>"
          "\<lambda>rq s. (Rejected (HttpError 403 (JObj [(''message'', JStr ''vendor says no'')])), s)"
          "\<lparr>YOUR_API_KEY = Some ''secret-key'', userId = Some ''u1''\<rparr>" "()"
          "\<lambda>rq s. (Answer 200 (Unparsable ''[{id: 1''), s)"]
    contacts_vendor_failure
      [of "\<lparr>req_method = ''POST'', query_connectionId = QString ''c1'',
            req_body = JObj [(''firstName'', JStr ''Ada''), (''lastName'', JStr ''Lovelace'')]\<rparr>"
          "\<lambda>rq s. (Rejected (NetworkError ''ECONNREFUSED''), s)"
          "\<lparr>YOUR_API_KEY = Some ''secret-key'', userId = Some ''u1''\<rparr>" "()"
          "\<lambda>rq s. (NoAnswer ''ECONNREFUSED'', s)"]
  by simp

section \<open>The contacts route: repeated reads\<close>

text \<open>
  C9. Against a vendor whose reads leave its state unchanged, any number of GET requests
  with the same parameters, handled one after the other, all get the answer of the first,
  and the vendor's state at the end is the one at the start.
\<close>

theorem list_contacts_idempotent:
  assumes "\<forall>rq s. verb rq = VGet \<longrightarrow> snd (vendor rq s) = s"
    and "req_method req = ''GET''"
  shows "run_requests cfg vendor (replicate n req) s =
           (replicate n (fst (contacts_handler cfg vendor req s)), s)"
proof (induction n)
  case 0
  show ?case by simp
next
  case (Suc n)
  have st: "snd (contacts_handler cfg vendor req s) = s"
    using assms by (intro contacts_handler_get_state) auto
  obtain h where h: "contacts_handler cfg vendor req s = (h, s)"
    using st by (cases "contacts_handler cfg vendor req s") simp
  show ?case by (simp add: h Suc.IH)
qed

theorem list_contacts_idempotent_witness:
  "run_requests \<lparr>YOUR_API_KEY = Some ''key'', userId = Some ''u1''\<rparr>
      (\<lambda>rq s. (Resolved \<lparr>data = (case payload rq of None \<Rightarrow> JObj [(''contacts'', JArr s)] | Some b \<Rightarrow> b)\<rparr>,
                (if verb rq = VGet then s else s @ [JNull])))
      (replicate 3 \<lparr>req_method = ''GET'', query_connectionId = QString ''c1'', req_body = JUndefined\<rparr>)
      [JObj [(''id'', JNum 1)]]
    = (replicate 3
         \<lparr>res = \<lparr>statusCode = 200, resHeaders = [],
                  resBody = JsonBody (JObj [(''contacts'', JArr [JObj [(''id'', JNum 1)]])])\<rparr>,
          calls = [\<lparr>verb = VGet,
                    url = ''https://embedded.runalloy.com/2023-12/one/crm/contacts?connectionId=c1'',
                    payload = None,
                    headers = [(''Authorization'', ''bearer key''), (''accept'', ''application/json'')]\<rparr>],
          logs = []\<rparr>,
       [JObj [(''id'', JNum 1)]])"
  using list_contacts_idempotent
      [of "\<lambda>rq s. (Resolved \<lparr>data = (case payload rq of None \<Rightarrow> JObj [(''contacts'', JArr s)] | Some b \<Rightarrow> b)\<rparr>,
                (if verb rq = VGet then s else s @ [JNull]))"
          "\<lparr>req_method = ''GET'', query_connectionId = QString ''c1'', req_body = JUndefined\<rparr>"
          "\<lparr>YOUR_API_KEY = Some ''key'', userId = Some ''u1''\<rparr>" 3 "[JObj [(''id'', JNum 1)]]"]
  by (simp add: contacts_handler_def contacts_get_call_def contacts_url_def json_response_def)

section \<open>The token route: the method is not read\<close>

text \<open>
  C10. The token route's result does not depend on the request: changing the method, or
  replacing the request altogether, changes nothing. Its status is 200 or 500, never 405.
\<close>

theorem get_jwt_token_any_method:
  "get_jwt_token_handler cfg vendor (req\<lparr>req_method := m\<rparr>) s = get_jwt_token_handler cfg vendor req s
   \<and> get_jwt_token_handler cfg vendor req' s = get_jwt_token_handler cfg vendor req s
   \<and> (statusCode (res (fst (get_jwt_token_handler cfg vendor req s))) = 200
      \<or> statusCode (res (fst (get_jwt_token_handler cfg vendor req s))) = 500)
   \<and> statusCode (res (fst (get_jwt_token_handler cfg vendor req s))) \<noteq> 405"
  using get_jwt_token_status [of cfg vendor req s]
  by (auto simp: get_jwt_token_handler_def)

theorem get_jwt_token_any_method_witness:
  "get_jwt_token_handler \<lparr>YOUR_API_KEY = Some ''key'', userId = Some ''u1''\<rparr>
       (\<lambda>rq s. (Resolved \<lparr>data = JObj [(''token'', JStr ''t0'')]\<rparr>, s))
       \<lparr>req_method = ''DELETE'', query_connectionId = QUndefined, req_body = JUndefined\<rparr> ()
     = get_jwt_token_handler \<lparr>YOUR_API_KEY = Some ''key'', userId = Some ''u1''\<rparr>
       (\<lambda>rq s. (Resolved \<lparr>data = JObj [(''token'', JStr ''t0'')]\<rparr>, s))
       \<lparr>req_method = ''GET'', query_connectionId = QUndefined, req_body = JUndefined\<rparr> ()
   \<and> statusCode (res (fst (get_jwt_token_handler \<lparr>YOUR_API_KEY = Some ''key'', userId = Some ''u1''\<rparr>
       (\<lambda>rq s. (Resolved \<lparr>data = JObj [(''token'', JStr ''t0'')]\<rparr>, s))
       \<lparr>req_method = ''DELETE'', query_connectionId = QUndefined, req_body = JUndefined\<rparr> ())))
     \<noteq> 405"
  using get_jwt_token_any_method
      [of "\<lparr>YOUR_API_KEY = Some ''key'', userId = Some ''u1''\<rparr>"
          "\<lambda>rq s. (Resolved \<lparr>data = JObj [(''token'', JStr ''t0'')]\<rparr>, s)"
          "''DELETE''"
          "\<lparr>req_method = ''GET'', query_connectionId = QUndefined, req_body = JUndefined\<rparr>"
          "()"
          "\<lparr>req_method = ''DELETE'', query_connectionId = QUndefined, req_body = JUndefined\<rparr>"]
  by simp

section \<open>The components: state after a create and after a failed fetch\<close>

text \<open>
  C7. In CreateContact, a submission with a connection identifier present leaves both
  fields empty when the create call resolves and leaves the state as it was when the call
  is rejected. In ContactList, a fetch whose call is rejected leaves the held contacts as
  they were; the only cell written is \<^verbatim>\<open>isLoading\<close>, back to false.
\<close>

theorem ui_state_after_create_and_fetch:
  assumes "cid \<noteq> []"
  shows "(\<forall>response g'. gateway (create_call cid st) g = (Resolved response, g') \<longrightarrow>
            ui_state (fst (handleSubmit gateway cid st g)) = \<lparr>firstName = [], lastName = []\<rparr>)
       \<and> (\<forall>error g'. gateway (create_call cid st) g = (Rejected error, g') \<longrightarrow>
            ui_state (fst (handleSubmit gateway cid st g)) = st)
       \<and> (\<forall>error g'. gateway (list_call cid) g = (Rejected error, g') \<longrightarrow>
            contacts (ui_state (fst (fetchContacts gateway cid ls g))) = contacts ls
          \<and> ui_state (fst (fetchContacts gateway cid ls g)) = ls\<lparr>isLoading := False\<rparr>)"
  using assms
  by (auto simp: handleSubmit_active fetchContacts_rejected)

theorem ui_state_after_create_and_fetch_witness:
  "ui_state (fst (handleSubmit (\<lambda>rq s. (Resolved \<lparr>data = JObj [(''id'', JStr ''7'')]\<rparr>, s)) ''c1''
       \<lparr>firstName = ''Ada'', lastName = ''Lovelace''\<rparr> ()))
     = \<lparr>firstName = [], lastName = []\<rparr>
   \<and> ui_state (fst (handleSubmit (\<lambda>rq s. (Rejected (HttpError 500 JNull), s)) ''c1''
       \<lparr>firstName = ''Ada'', lastName = ''Lovelace''\<rparr> ()))
     = \<lparr>firstName = ''Ada'', lastName = ''Lovelace''\<rparr>
   \<and> contacts (ui_state (fst (fetchContacts (\<lambda>rq s. (Rejected (HttpError 500 JNull), s)) ''c1''
       \<lparr>contacts = JArr [JObj [(''id'', JStr ''7'')]], isLoading = False\<rparr> ())))
     = JArr [JObj [(''id'', JStr ''7'')]]"
  using ui_state_after_create_and_fetch
      [of "''c1''" "\<lambda>rq s. (Resolved \<lparr>data = JObj [(''id'', JStr ''7'')]\<rparr>, s)"
          "\<lparr>firstName = ''Ada'', lastName = ''Lovelace''\<rparr>" "()"
          "\<lparr>contacts = JArr [JObj [(''id'', JStr ''7'')]], isLoading = False\<rparr>"]
    ui_state_after_create_and_fetch
      [of "''c1''" "\<lambda>rq s. (Rejected (HttpError 500 JNull), s)"
          "\<lparr>firstName = ''Ada'', lastName = ''Lovelace''\<rparr>" "()"
          "\<lparr>contacts = JArr [JObj [(''id'', JStr ''7'')]], isLoading = False\<rparr>"]
  by simp

section \<open>The listing view without a connection identifier\<close>

text \<open>
  C8, as stated: while no connection identifier is held, the listing view renders the
  "complete Step 1" prompt. It fails on the page as it starts: with the empty identifier
  the page does not mount ContactList, so what it shows holds the connect button only and
  no prompt.
\<close>

theorem listing_view_counterexample:
  "connectionId app_initial = []
   \<and> Home (\<lambda>v. case v of JNum n \<Rightarrow> 0 < n | JBool b \<Rightarrow> b | _ \<Rightarrow> False) app_initial
       = [ConnectAppButton]
   \<and> ListingView (Inr (Prompt ''Please complete Step 1 to connect an app and view contacts.''))
       \<notin> set (Home (\<lambda>v. case v of JNum n \<Rightarrow> 0 < n | JBool b \<Rightarrow> b | _ \<Rightarrow> False) app_initial)"
  by (simp add: app_initial_def Home_def)

text \<open>
  C8, amended. In every state the page reaches from its start in which it holds no
  connection identifier, ContactList is not mounted and the page shows the connect button
  only; an event other than the successful delivery of a non-empty identifier then makes
  no call from ContactList and no call to the contacts route: the only call it can make
  is the Connect App button's GET of the token route. A run in which no non-empty
  identifier is delivered makes no call from ContactList and none to the contacts route,
  and ends without an identifier. ContactList itself, given the empty identifier, returns
  the "complete Step 1" prompt, and its \<^verbatim>\<open>fetchContacts\<close> then makes no call, logs
  nothing and leaves the state as it was.
\<close>

theorem listing_view_without_connection:
  "(connectionId (app_after (run_events gateway evs app_initial g)) = [] \<longrightarrow>
      listing (app_after (run_events gateway evs app_initial g)) = None
    \<and> Home gt_zero (app_after (run_events gateway evs app_initial g)) = [ConnectAppButton]
    \<and> (\<forall>e. delivers_nothing e \<longrightarrow>
         listing_calls (app_calls (app_step gateway e (app_after (run_events gateway evs app_initial g))
                      (peer_after (run_events gateway evs app_initial g)))) = []
       \<and> contacts_route_calls (app_calls (app_step gateway e (app_after (run_events gateway evs app_initial g))
                      (peer_after (run_events gateway evs app_initial g)))) = []
       \<and> set (app_calls (app_step gateway e (app_after (run_events gateway evs app_initial g))
                      (peer_after (run_events gateway evs app_initial g))))
             \<subseteq> {(FromConnectApp, token_call)}))
   \<and> ((\<forall>e \<in> set evs. delivers_nothing e) \<longrightarrow>
        listing_calls (app_calls (run_events gateway evs app_initial g)) = []
      \<and> contacts_route_calls (app_calls (run_events gateway evs app_initial g)) = []
      \<and> set (app_calls (run_events gateway evs app_initial g)) \<subseteq> {(FromConnectApp, token_call)}
      \<and> connectionId (app_after (run_events gateway evs app_initial g)) = [])
   \<and> ContactList gt_zero [] ls
        = Inr (Prompt ''Please complete Step 1 to connect an app and view contacts.'')
   \<and> fetchContacts gateway [] ls g = (\<lparr>ui_state = ls, ui_calls = [], ui_logs = []\<rparr>, g)"
proof -
  let ?R = "run_events gateway evs app_initial g"
  have init: "unmounted_when_empty app_initial" "connectionId app_initial = []"
    by (simp_all add: unmounted_when_empty_def app_initial_def)
  have u: "unmounted_when_empty (app_after ?R)"
    using init(1) by (rule run_events_unmounted)
  have a: "connectionId (app_after ?R) = [] \<longrightarrow>
      listing (app_after ?R) = None
    \<and> Home gt_zero (app_after ?R) = [ConnectAppButton]
    \<and> (\<forall>e. delivers_nothing e \<longrightarrow>
         listing_calls (app_calls (app_step gateway e (app_after ?R) (peer_after ?R))) = []
       \<and> contacts_route_calls (app_calls (app_step gateway e (app_after ?R) (peer_after ?R))) = []
       \<and> set (app_calls (app_step gateway e (app_after ?R) (peer_after ?R)))
             \<subseteq> {(FromConnectApp, token_call)})"
  proof (intro impI conjI allI)
    assume e: "connectionId (app_after ?R) = []"
    show "listing (app_after ?R) = None"
      using u e by (simp add: unmounted_when_empty_def)
    show "Home gt_zero (app_after ?R) = [ConnectAppButton]"
      using e by (rule Home_empty)
    fix ev
    assume d: "delivers_nothing ev"
    show t: "set (app_calls (app_step gateway ev (app_after ?R) (peer_after ?R)))
             \<subseteq> {(FromConnectApp, token_call)}"
      by (rule conjunct1 [OF app_step_quiet [OF u e d]])
    show "listing_calls (app_calls (app_step gateway ev (app_after ?R) (peer_after ?R))) = []"
      by (rule conjunct1 [OF only_token_calls [OF t]])
    show "contacts_route_calls (app_calls (app_step gateway ev (app_after ?R) (peer_after ?R))) = []"
      by (rule conjunct2 [OF only_token_calls [OF t]])
  qed
  have b: "(\<forall>e \<in> set evs. delivers_nothing e) \<longrightarrow>
        listing_calls (app_calls ?R) = []
      \<and> contacts_route_calls (app_calls ?R) = []
      \<and> set (app_calls ?R) \<subseteq> {(FromConnectApp, token_call)}
      \<and> connectionId (app_after ?R) = []"
  proof (intro impI conjI)
    assume q: "\<forall>e \<in> set evs. delivers_nothing e"
    note r = run_events_quiet [OF init q, of gateway g]
    show t: "set (app_calls ?R) \<subseteq> {(FromConnectApp, token_call)}"
      by (rule conjunct1 [OF r])
    show "connectionId (app_after ?R) = []"
      by (rule conjunct2 [OF r])
    show "listing_calls (app_calls ?R) = []"
      by (rule conjunct1 [OF only_token_calls [OF t]])
    show "contacts_route_calls (app_calls ?R) = []"
      by (rule conjunct2 [OF only_token_calls [OF t]])
  qed
  have c: "ContactList gt_zero [] ls
             = Inr (Prompt ''Please complete Step 1 to connect an app and view contacts.'')"
    by (simp add: ContactList_def)
  show ?thesis
    by (intro conjI) (rule a, rule b, rule c, rule fetchContacts_inactive)
qed

theorem listing_view_without_connection_witness:
  "listing_calls (app_calls (run_events (\<lambda>rq s. (Resolved \<lparr>data = JObj [(''contacts'', JArr [])]\<rparr>, Suc s))
       [ClickConnect True, ClickRefresh, WidgetCallback False ''c1'', WidgetCallback True [],
        ChangeFirstName ''Ada'', SubmitForm] app_initial 0)) = []
   \<and> contacts_route_calls (app_calls (run_events (\<lambda>rq s. (Resolved \<lparr>data = JObj [(''contacts'', JArr [])]\<rparr>, Suc s))
       [ClickConnect True, ClickRefresh, WidgetCallback False ''c1'', WidgetCallback True [],
        ChangeFirstName ''Ada'', SubmitForm] app_initial 0)) = []
   \<and> connectionId (app_after (run_events (\<lambda>rq s. (Resolved \<lparr>data = JObj [(''contacts'', JArr [])]\<rparr>, Suc s))
       [ClickConnect True, ClickRefresh, WidgetCallback False ''c1'', WidgetCallback True [],
        ChangeFirstName ''Ada'', SubmitForm] app_initial 0)) = []
   \<and> app_calls (run_events (\<lambda>rq s. (Resolved \<lparr>data = JObj [(''contacts'', JArr [])]\<rparr>, Suc s))
       [ClickConnect True, WidgetCallback True ''c1'', ClickRefresh, WidgetCallback True []] app_initial 0)
       = [(FromConnectApp, token_call), (FromContactList, list_call ''c1''),
          (FromContactList, list_call ''c1'')]
   \<and> listing (app_after (run_events (\<lambda>rq s. (Resolved \<lparr>data = JObj [(''contacts'', JArr [])]\<rparr>, Suc s))
       [ClickConnect True, WidgetCallback True ''c1'', ClickRefresh, WidgetCallback True []] app_initial 0)) = None
   \<and> Home (\<lambda>v. case v of JNum n \<Rightarrow> 0 < n | JBool b \<Rightarrow> b | _ \<Rightarrow> False)
        (app_after (run_events (\<lambda>rq s. (Resolved \<lparr>data = JObj [(''contacts'', JArr [])]\<rparr>, Suc s))
       [ClickConnect True, WidgetCallback True ''c1'', ClickRefresh, WidgetCallback True []] app_initial 0))
       = [ConnectAppButton]
   \<and> listing_calls (app_calls (app_step (\<lambda>rq s. (Resolved \<lparr>data = JObj [(''contacts'', JArr [])]\<rparr>, Suc s))
       ClickRefresh
       (app_after (run_events (\<lambda>rq s. (Resolved \<lparr>data = JObj [(''contacts'', JArr [])]\<rparr>, Suc s))
          [ClickConnect True, WidgetCallback True ''c1'', ClickRefresh, WidgetCallback True []] app_initial 0))
       (peer_after (run_events (\<lambda>rq s. (Resolved \<lparr>data = JObj [(''contacts'', JArr [])]\<rparr>, Suc s))
          [ClickConnect True, WidgetCallback True ''c1'', ClickRefresh, WidgetCallback True []] app_initial 0)))) = []
   \<and> contacts_route_calls (app_calls (app_step (\<lambda>rq s. (Resolved \<lparr>data = JObj [(''contacts'', JArr [])]\<rparr>, Suc s))
       (ClickConnect True)
       (app_after (run_events (\<lambda>rq s. (Resolved \<lparr>data = JObj [(''contacts'', JArr [])]\<rparr>, Suc s))
          [ClickConnect True, WidgetCallback True ''c1'', ClickRefresh, WidgetCallback True []] app_initial 0))
       (peer_after (run_events (\<lambda>rq s. (Resolved \<lparr>data = JObj [(''contacts'', JArr [])]\<rparr>, Suc s))
          [ClickConnect True, WidgetCallback True ''c1'', ClickRefresh, WidgetCallback True []] app_initial 0)))) = []"
proof -
  let ?G = "\<lambda>rq s. (Resolved \<lparr>data = JObj [(''contacts'', JArr [])]\<rparr>, Suc s)"
  let ?Z = "\<lambda>v. case v of JNum n \<Rightarrow> 0 < n | JBool b \<Rightarrow> b | _ \<Rightarrow> False"
  let ?E = "[ClickConnect True, ClickRefresh, WidgetCallback False ''c1'', WidgetCallback True [],
             ChangeFirstName ''Ada'', SubmitForm]"
  let ?F = "[ClickConnect True, WidgetCallback True ''c1'', ClickRefresh, WidgetCallback True []]"
  let ?R = "run_events ?G ?F app_initial 0"
  have quiet: "\<forall>e \<in> set ?E. delivers_nothing e"
    by (simp add: delivers_nothing_def)
  have click: "delivers_nothing ClickRefresh" and connect: "delivers_nothing (ClickConnect True)"
    by (simp_all add: delivers_nothing_def)
  have run: "?R = \<lparr>app_after = \<lparr>connectionId = [], listing = None, creation = None\<rparr>,
                   app_calls = [(FromConnectApp, token_call), (FromContactList, list_call ''c1''),
                                (FromContactList, list_call ''c1'')],
                   peer_after = 3\<rparr>"
    by (simp add: app_initial_def handleConnectionEstablished_def run_fetch_def fetchContacts_def
          fetchTokenAndAuthenticate_def list_initial_def create_initial_def Let_def)
  have held: "connectionId (app_after ?R) = []" and tr: "app_calls ?R
      = [(FromConnectApp, token_call), (FromContactList, list_call ''c1''),
         (FromContactList, list_call ''c1'')]"
    unfolding run by simp_all
  note never = listing_view_without_connection
      [of ?G ?E 0 ?Z "\<lparr>contacts = JArr [], isLoading = False\<rparr>"]
  note after = listing_view_without_connection
      [of ?G ?F 0 ?Z "\<lparr>contacts = JArr [], isLoading = False\<rparr>"]
  have c: "listing_calls (app_calls (run_events ?G ?E app_initial 0)) = []"
    and d: "contacts_route_calls (app_calls (run_events ?G ?E app_initial 0)) = []"
    and e: "connectionId (app_after (run_events ?G ?E app_initial 0)) = []"
    using never quiet by blast+
  have l: "listing (app_after ?R) = None" and h: "Home ?Z (app_after ?R) = [ConnectAppButton]"
    and s: "listing_calls (app_calls (app_step ?G ClickRefresh (app_after ?R) (peer_after ?R))) = []"
    and t: "contacts_route_calls (app_calls (app_step ?G (ClickConnect True) (app_after ?R) (peer_after ?R))) = []"
    using after held click connect by blast+
  show ?thesis
    by (intro conjI) (rule c, rule d, rule e, rule tr, rule l, rule h, rule s, rule t)
qed

end
